theory Spec2Isabelle
  imports Complex_Main
begin

section \<open>JavaScript strings\<close>

text \<open>
  A JavaScript string is a sequence of UTF-16 code units. Every character the
  program tests for or writes lies in the Basic Multilingual Plane, so a code
  unit is modelled by its number; regular expressions without the \<open>u\<close> flag and
  \<open>trim\<close> work on code units, as the functions below do.
\<close>

type_synonym jschar = nat
type_synonym jsstring = "jschar list"

text \<open>An ASCII literal of the source, as code units.\<close>

definition js :: "string \<Rightarrow> jsstring" where
  "js s = map of_char s"

text \<open>
  The white space of ECMAScript (WhiteSpace and LineTerminator): what
  \<open>String.prototype.trim\<close> removes and what \<open>\s\<close> matches.
\<close>

definition is_ws :: "jschar \<Rightarrow> bool" where
  "is_ws c \<longleftrightarrow>
     c \<in> set [0x9, 0xA, 0xB, 0xC, 0xD, 0x20, 0xA0, 0x1680, 0x2028, 0x2029,
               0x202F, 0x205F, 0x3000, 0xFEFF]
     \<or> (0x2000 \<le> c \<and> c \<le> 0x200A)"

definition trim :: "jsstring \<Rightarrow> jsstring" where
  "trim s = rev (dropWhile is_ws (rev (dropWhile is_ws s)))"

text \<open>\<open>text.replace(/a/g, 'b')\<close> for a pattern of one literal code unit.\<close>

definition replaceAll :: "jschar \<Rightarrow> jschar \<Rightarrow> jsstring \<Rightarrow> jsstring" where
  "replaceAll a b s = map (\<lambda>c. if c = a then b else c) s"

text \<open>\<open>s.replace(/\s+/g, '_')\<close>: every maximal run of white space becomes one underscore.\<close>

function replace_ws_runs :: "jsstring \<Rightarrow> jsstring" where
  "replace_ws_runs [] = []"
| "replace_ws_runs (c # cs) =
     (if is_ws c then 0x5F # replace_ws_runs (dropWhile is_ws cs)
      else c # replace_ws_runs cs)"
  by pat_completeness auto
termination
  by (relation "measure length") (auto simp: le_imp_less_Suc length_dropWhile_le)

text \<open>The character class \<open>[a-zA-Z0-9_]\<close>.\<close>

definition is_word :: "jschar \<Rightarrow> bool" where
  "is_word c \<longleftrightarrow>
     (0x61 \<le> c \<and> c \<le> 0x7A) \<or> (0x41 \<le> c \<and> c \<le> 0x5A) \<or> (0x30 \<le> c \<and> c \<le> 0x39) \<or> c = 0x5F"

text \<open>\<open>s.replace(/[^a-zA-Z0-9_]/g, '_')\<close>.\<close>

definition replace_non_word :: "jsstring \<Rightarrow> jsstring" where
  "replace_non_word s = map (\<lambda>c. if is_word c then c else 0x5F) s"

text \<open>A thrown value; only its message is kept.\<close>

datatype js_error = Error jsstring

section \<open>pdfUtils: transliteration\<close>

text \<open>
  \<open>sanitizeText\<close> is a chain of fourteen global replacements, each of one letter
  by one ASCII letter. The table lists them in the order of the source:
  g-breve, G-breve, u-diaeresis, U-diaeresis, s-cedilla, S-cedilla, dotless i,
  dotted capital I, o-diaeresis, O-diaeresis, c-cedilla, C-cedilla,
  a-circumflex, A-circumflex.
\<close>

definition sanitize_table :: "(jschar \<times> jschar) list" where
  "sanitize_table =
     [(0x11F, 0x67), (0x11E, 0x47), (0xFC, 0x75), (0xDC, 0x55),
      (0x15F, 0x73), (0x15E, 0x53), (0x131, 0x69), (0x130, 0x49),
      (0xF6, 0x6F), (0xD6, 0x4F), (0xE7, 0x63), (0xC7, 0x43),
      (0xE2, 0x61), (0xC2, 0x41)]"

definition sanitizeText :: "jsstring \<Rightarrow> jsstring" where
  "sanitizeText text = foldl (\<lambda>s (a, b). replaceAll a b s) text sanitize_table"

text \<open>
  The diacritic letters of Turkish, whatever the table holds: the letters of
  the alphabet outside ASCII (c-cedilla, g-breve, dotless i, dotted capital I,
  o-diaeresis, s-cedilla, u-diaeresis, small and capital) and the circumflex
  vowels of its orthography (a, i and u with circumflex, small and capital).
\<close>

definition turkish_diacritics :: "jschar list" where
  "turkish_diacritics =
     [0xE7, 0xC7, 0x11F, 0x11E, 0x131, 0x130, 0xF6, 0xD6, 0x15F, 0x15E, 0xFC, 0xDC,
      0xE2, 0xC2, 0xEE, 0xCE, 0xFB, 0xDB]"

definition is_diacritic :: "jschar \<Rightarrow> bool" where
  "is_diacritic c \<longleftrightarrow> c \<in> set turkish_diacritics"


section \<open>geminiService: the message composer\<close>

record GenerateContentConfig =
  temperature :: real
  maxOutputTokens :: nat

record GenerateContentParameters =
  model :: jsstring
  contents :: jsstring
  config :: GenerateContentConfig

record GoogleGenAI =
  apiKey :: jsstring

record GenerateContentResponse =
  response_text :: "jsstring option"

text \<open>
  What the function reads from outside: the build-time variable
  \<open>process.env.API_KEY\<close>, which may be absent, and the remote call
  \<open>ai.models.generateContent\<close>, which either throws (transport error, rejected
  credential, malformed reply) or returns a response whose \<open>text\<close> may be
  undefined. The constructor \<open>new GoogleGenAI\<close> stores its options.
\<close>

record gemini_env =
  API_KEY :: "jsstring option"
  generateContent :: "GoogleGenAI \<Rightarrow> GenerateContentParameters \<Rightarrow> js_error + GenerateContentResponse"

text \<open>\<open>x || d\<close> for an optional string: undefined and the empty string are falsy.\<close>

definition or_else :: "jsstring option \<Rightarrow> jsstring \<Rightarrow> jsstring" where
  "or_else x d = (case x of None \<Rightarrow> d | Some s \<Rightarrow> if s = [] then d else s)"

text \<open>
  The fallback sentence: "Bilimsel arastirmalarimiza sundugunuz degerli katkilar
  icin tesekkur ederiz." with its Turkish letters.
\<close>

definition gemini_default :: jsstring where
  "gemini_default =
     js ''Bilimsel ara'' @ [0x15F] @ js ''t'' @ [0x131] @ js ''rmalar'' @ [0x131] @ js ''m''
     @ [0x131] @ js ''za sundu'' @ [0x11F] @ js ''unuz de'' @ [0x11F] @ js ''erli katk''
     @ [0x131] @ js ''lar i'' @ [0xE7] @ js ''in te'' @ [0x15F] @ js ''ekk'' @ [0xFC]
     @ js ''r ederiz.''"

text \<open>The prompt template around \<open>${name}\<close>.\<close>

definition prompt_prefix :: jsstring where
  "prompt_prefix =
     js ''G'' @ [0xF6] @ js ''n'' @ [0xFC] @ js ''ll'' @ [0xFC] @ js '' ismi: ''"

definition prompt_suffix :: jsstring where
  "prompt_suffix =
     js ''. Bu ki'' @ [0x15F] @ js ''i bir bilimsel ara'' @ [0x15F] @ js ''t'' @ [0x131]
     @ js ''rmaya g'' @ [0xF6] @ js ''n'' @ [0xFC] @ js ''ll'' @ [0xFC]
     @ js '' olarak destek verdi. '' @ [0xA] @ js ''      L'' @ [0xFC] @ js ''tfen bu ki''
     @ [0x15F] @ js ''iye ara'' @ [0x15F] @ js ''t'' @ [0x131] @ js ''rmaya katk'' @ [0x131]
     @ js ''lar'' @ [0x131] @ js ''ndan dolay'' @ [0x131] @ js '' '' @ [0xE7] @ js ''ok k''
     @ [0x131] @ js ''sa (maksimum 15 kelime), '' @ [0xA] @ js ''      profesyonel ve i''
     @ [0xE7] @ js ''ten bir te'' @ [0x15F] @ js ''ekk'' @ [0xFC] @ js ''r mesaj'' @ [0x131]
     @ js '' yaz (T'' @ [0xFC] @ js ''rk'' @ [0xE7] @ js ''e). '' @ [0xA] @ js ''      ''
     @ [0xD6] @ js ''rne'' @ [0x11F] @ js ''in: '' @ [0x22] @ js ''Katk'' @ [0x131]
     @ js ''lar'' @ [0x131] @ js ''n'' @ [0x131] @ js ''z, veri analizi s'' @ [0xFC]
     @ js ''recimize '' @ [0x131, 0x15F, 0x131] @ js ''k tuttu ve bilimin ilerlemesine yard''
     @ [0x131] @ js ''mc'' @ [0x131] @ js '' oldu.'' @ [0x22]"

text \<open>The client and the request the function builds.\<close>

definition ai_client :: "gemini_env \<Rightarrow> GoogleGenAI" where
  "ai_client env = \<lparr>apiKey = or_else (API_KEY env) []\<rparr>"

definition impact_request :: "jsstring \<Rightarrow> GenerateContentParameters" where
  "impact_request n =
     \<lparr>model = js ''gemini-3-flash-preview'',
      contents = prompt_prefix @ n @ prompt_suffix,
      config = \<lparr>temperature = 0.7, maxOutputTokens = 100\<rparr>\<rparr>"

text \<open>
  The \<open>try\<close> block holds the remote call and the reading of the response; the
  \<open>catch\<close> block logs and returns the fallback sentence.
\<close>

definition generateImpactMessage :: "gemini_env \<Rightarrow> jsstring \<Rightarrow> js_error + jsstring" where
  "generateImpactMessage env n =
     (let ai = ai_client env in
      case generateContent env ai (impact_request n) of
        Inl err \<Rightarrow> Inr gemini_default
      | Inr response \<Rightarrow> Inr (or_else (map_option trim (response_text response)) gemini_default))"

section \<open>pdfUtils: fonts\<close>

record CertificateInput =
  cert_name :: jsstring
  cert_date :: jsstring
  impactMessage :: jsstring
  institution :: "jsstring option"
  departmentOrUnit :: "jsstring option"
  coordinatorTitle :: "jsstring option"
  coordinatorName :: "jsstring option"
  location :: "jsstring option"
  certificateNo :: "jsstring option"

datatype font_family = Helvetica | Times | Roboto
datatype font_style = Normal | Bold
datatype text_align = AlignLeft | AlignCenter
datatype text_arg = Str jsstring | Lines "jsstring list"

text \<open>
  What a call of the drawing library leaves on the page. A text carries the
  font and the size in force when it is drawn. The three decorations are kept
  as one operation each (anchor, height where there is one, scale); colours
  and line widths are not kept.
\<close>

datatype draw_op =
    Rect real real real real
  | Line real real real real
  | Circle real real real
  | DNAHelix real real real real
  | Atom real real real
  | Microscope real real real
  | Text text_arg real real text_align font_family font_style real

record jsPDF =
  vfs :: "(jsstring \<times> jsstring) list"
  fontTable :: "(jsstring \<times> font_family \<times> font_style) list"
  font :: "font_family \<times> font_style"
  fontSize :: real
  ops :: "draw_op list"

record http_response =
  ok :: bool
  status :: nat
  arrayBuffer :: "js_error + nat list"

text \<open>
  What the generator reads from outside: the network (\<open>fetch\<close>), \<open>btoa\<close>, the
  page size of the library, the upper-casing of the runtime for the locale
  \<open>tr-TR\<close>, the text metrics of the library (they depend on the font and size in
  force), whether a call of the library made before \<open>doc.save\<close> throws, and
  whether \<open>doc.save\<close> delivers the file or throws.

  \<open>library_throws\<close> is the error of the first call of the library that throws
  while a request is drawn (the constructor, a font setter, a metric or a
  drawing call), if one does. It is given the request and the document the
  calls build, which holds the registered font files and every drawing call:
  a font file the library cannot read makes the first text drawn in it throw.
\<close>

record pdf_env =
  fetch :: "jsstring \<Rightarrow> js_error + http_response"
  btoa :: "nat list \<Rightarrow> jsstring"
  pageWidth :: real
  pageHeight :: real
  toLocaleUpperCase :: "jsstring \<Rightarrow> jsstring"
  getTextWidth :: "font_family \<times> font_style \<Rightarrow> real \<Rightarrow> jsstring \<Rightarrow> real"
  splitTextToSize :: "font_family \<times> font_style \<Rightarrow> real \<Rightarrow> jsstring \<Rightarrow> real \<Rightarrow> jsstring list"
  library_throws :: "CertificateInput \<Rightarrow> jsPDF \<Rightarrow> js_error option"
  save :: "jsstring \<Rightarrow> jsPDF \<Rightarrow> js_error + unit"

text \<open>A block of statements on the document, run in order.\<close>

definition run :: "(jsPDF \<Rightarrow> jsPDF) list \<Rightarrow> jsPDF \<Rightarrow> jsPDF" where
  "run steps doc = fold (\<lambda>step d. step d) steps doc"

definition new_jsPDF :: jsPDF where
  "new_jsPDF = \<lparr>vfs = [], fontTable = [], font = (Helvetica, Normal), fontSize = 16, ops = []\<rparr>"

definition doc_setFont :: "font_family \<Rightarrow> font_style \<Rightarrow> jsPDF \<Rightarrow> jsPDF" where
  "doc_setFont family style doc = doc\<lparr>font := (family, style)\<rparr>"

definition doc_setFontSize :: "real \<Rightarrow> jsPDF \<Rightarrow> jsPDF" where
  "doc_setFontSize sz doc = doc\<lparr>fontSize := sz\<rparr>"

definition draw :: "draw_op \<Rightarrow> jsPDF \<Rightarrow> jsPDF" where
  "draw op doc = doc\<lparr>ops := ops doc @ [op]\<rparr>"

definition doc_text :: "text_arg \<Rightarrow> real \<Rightarrow> real \<Rightarrow> text_align \<Rightarrow> jsPDF \<Rightarrow> jsPDF" where
  "doc_text content x y align doc =
     draw (Text content x y align (fst (font doc)) (snd (font doc)) (fontSize doc)) doc"

definition doc_addFileToVFS :: "jsstring \<Rightarrow> jsstring \<Rightarrow> jsPDF \<Rightarrow> jsPDF" where
  "doc_addFileToVFS file data doc = doc\<lparr>vfs := vfs doc @ [(file, data)]\<rparr>"

definition doc_addFont :: "jsstring \<Rightarrow> font_family \<Rightarrow> font_style \<Rightarrow> jsPDF \<Rightarrow> jsPDF" where
  "doc_addFont file family style doc = doc\<lparr>fontTable := fontTable doc @ [(file, family, style)]\<rparr>"

text \<open>
  \<open>arrayBufferToBase64\<close> joins the chunks of the buffer into one binary string,
  which is the buffer again, and encodes it.
\<close>

definition arrayBufferToBase64 :: "pdf_env \<Rightarrow> nat list \<Rightarrow> jsstring" where
  "arrayBufferToBase64 env buffer = btoa env buffer"

fun decimal :: "nat \<Rightarrow> jsstring" where
  "decimal n = (if n < 10 then [0x30 + n] else decimal (n div 10) @ [0x30 + n mod 10])"

text \<open>
  The loop over the mirrors: a thrown fetch, a status that is not ok and a
  failing read of the body all go to the next URL; after the last one the last
  error is thrown.
\<close>

fun fetchFirstAvailable :: "pdf_env \<Rightarrow> js_error option \<Rightarrow> jsstring list \<Rightarrow> js_error + nat list" where
  "fetchFirstAvailable env lastErr [] =
     Inl (case lastErr of Some e \<Rightarrow> e | None \<Rightarrow> Error (js ''All font mirrors failed.''))"
| "fetchFirstAvailable env lastErr (url # urls) =
     (case fetch env url of
        Inl e \<Rightarrow> fetchFirstAvailable env (Some e) urls
      | Inr res \<Rightarrow>
          if \<not> ok res
          then fetchFirstAvailable env
                 (Some (Error (js ''HTTP '' @ decimal (status res) @ js '' for '' @ url))) urls
          else (case arrayBuffer res of
                  Inl e \<Rightarrow> fetchFirstAvailable env (Some e) urls
                | Inr buf \<Rightarrow> Inr buf))"

definition regular_urls :: "jsstring list" where
  "regular_urls =
     [js ''https://cdnjs.cloudflare.com/ajax/libs/pdfmake/0.1.66/fonts/Roboto/Roboto-Regular.ttf'',
      js ''https://fonts.gstatic.com/s/roboto/v30/KFOmCnqEu92Fr1Me5Q.ttf'']"

definition bold_urls :: "jsstring list" where
  "bold_urls =
     [js ''https://cdnjs.cloudflare.com/ajax/libs/pdfmake/0.1.66/fonts/Roboto/Roboto-Medium.ttf'',
      js ''https://fonts.gstatic.com/s/roboto/v30/KFOlCnqEu92Fr1MmWUlfBBc4.ttf'']"

text \<open>Returns whether the fonts loaded, and the document with them registered.\<close>

definition loadCustomFonts :: "pdf_env \<Rightarrow> jsPDF \<Rightarrow> bool \<times> jsPDF" where
  "loadCustomFonts env doc =
     (case fetchFirstAvailable env None regular_urls of
        Inl e \<Rightarrow> (False, doc)
      | Inr regularBuf \<Rightarrow>
          (case fetchFirstAvailable env None bold_urls of
             Inl e \<Rightarrow> (False, doc)
           | Inr boldBuf \<Rightarrow>
               (True,
                run [doc_addFileToVFS (js ''Roboto-Regular.ttf'') (arrayBufferToBase64 env regularBuf),
                     doc_addFont (js ''Roboto-Regular.ttf'') Roboto Normal,
                     doc_addFileToVFS (js ''Roboto-Bold.ttf'') (arrayBufferToBase64 env boldBuf),
                     doc_addFont (js ''Roboto-Bold.ttf'') Roboto Bold] doc)))"

section \<open>pdfUtils: the certificate\<close>

text \<open>
  The literals of the generator, with their Turkish letters: "Tipta Profesyonellik
  Blogu", "Bilimsel Arastirmalar ve Uygulamalar", "Koordinator", "GONULLU KATILIM
  SERTIFIKASI", the introduction, the default impact sentence ("Katkilariniz,
  arastirma surecimizin niteligini ve guvenilirligini guclendirmistir."), the
  closing sentence, "Duzenlenme Tarihi" and "Belge No".
\<close>

definition default_institution :: jsstring where
  "default_institution =
     js ''T'' @ [0x131] @ js ''pta Profesyonellik Blo'' @ [0x11F] @ js ''u''"

definition default_unit :: jsstring where
  "default_unit =
     js ''Bilimsel Ara'' @ [0x15F] @ js ''t'' @ [0x131] @ js ''rmalar ve Uygulamalar''"

definition default_coordinatorTitle :: jsstring where
  "default_coordinatorTitle =
     js ''Koordinat'' @ [0xF6] @ js ''r''"

definition title_text :: jsstring where
  "title_text =
     js ''G'' @ [0xD6] @ js ''N'' @ [0xDC] @ js ''LL'' @ [0xDC] @ js '' KATILIM SERT''
     @ [0x130] @ js ''F'' @ [0x130] @ js ''KASI''"

definition introRaw :: jsstring where
  "introRaw =
     js ''Bu sertifika, y'' @ [0xFC] @ js ''r'' @ [0xFC] @ js ''t'' @ [0xFC]
     @ js ''len bilimsel '' @ [0xE7] @ js ''al'' @ [0x131, 0x15F] @ js ''malara g'' @ [0xF6]
     @ js ''n'' @ [0xFC] @ js ''ll'' @ [0xFC] @ js '' kat'' @ [0x131] @ js ''l'' @ [0x131]
     @ js ''m'' @ [0x131] @ js '' ve sundu'' @ [0x11F] @ js ''u de'' @ [0x11F]
     @ js ''erli katk'' @ [0x131] @ js ''lar nedeniyle a'' @ [0x15F] @ js ''a''
     @ [0x11F, 0x131] @ js ''da ad'' @ [0x131] @ js '' yaz'' @ [0x131] @ js ''l'' @ [0x131]
     @ js '' kat'' @ [0x131] @ js ''l'' @ [0x131] @ js ''mc'' @ [0x131]
     @ js ''ya takdim edilmi'' @ [0x15F] @ js ''tir.''"

definition default_impact :: jsstring where
  "default_impact =
     js ''Katk'' @ [0x131] @ js ''lar'' @ [0x131] @ js ''n'' @ [0x131] @ js ''z, ara''
     @ [0x15F] @ js ''t'' @ [0x131] @ js ''rma s'' @ [0xFC] @ js ''recimizin niteli''
     @ [0x11F] @ js ''ini ve g'' @ [0xFC] @ js ''venilirli'' @ [0x11F] @ js ''ini g''
     @ [0xFC, 0xE7] @ js ''lendirmi'' @ [0x15F] @ js ''tir.''"

definition closingRaw :: jsstring where
  "closingRaw =
     js ''Say'' @ [0x131] @ js ''n kat'' @ [0x131] @ js ''l'' @ [0x131] @ js ''mc'' @ [0x131]
     @ js ''m'' @ [0x131] @ js ''za te'' @ [0x15F] @ js ''ekk'' @ [0xFC]
     @ js ''r eder, akademik ve mesleki ya'' @ [0x15F] @ js ''am'' @ [0x131] @ js ''nda ba''
     @ [0x15F] @ js ''ar'' @ [0x131] @ js ''lar'' @ [0x131] @ js ''n'' @ [0x131]
     @ js ''n devam'' @ [0x131] @ js ''n'' @ [0x131] @ js '' dileriz.''"

definition dateLabelRaw :: jsstring where
  "dateLabelRaw =
     js ''D'' @ [0xFC] @ js ''zenlenme Tarihi''"

definition certNoLabelRaw :: jsstring where
  "certNoLabelRaw =
     js ''Belge No''"

text \<open>The two closures of the generator: \<open>t\<close> and \<open>setFont\<close>.\<close>

definition t :: "bool \<Rightarrow> jsstring \<Rightarrow> jsstring" where
  "t fontLoaded text = (if fontLoaded then text else sanitizeText text)"

definition setFont :: "bool \<Rightarrow> font_style \<Rightarrow> jsPDF \<Rightarrow> jsPDF" where
  "setFont fontLoaded style doc =
     (if fontLoaded then doc_setFont Roboto style doc else doc_setFont Times style doc)"

text \<open>\<open>x ?? d\<close> for an optional field.\<close>

definition nullish :: "jsstring option \<Rightarrow> jsstring \<Rightarrow> jsstring" where
  "nullish x d = (case x of None \<Rightarrow> d | Some s \<Rightarrow> s)"

text \<open>
  The \<open>while\<close> loop that shrinks the name: the width is measured with the size
  in force, and each round takes 2 off the size and sets it.
\<close>

function shrinkName :: "pdf_env \<Rightarrow> jsstring \<Rightarrow> real \<Rightarrow> int \<Rightarrow> jsPDF \<Rightarrow> int \<times> jsPDF" where
  "shrinkName env cleanName maxNameWidth nameFontSize doc =
     (if getTextWidth env (font doc) (fontSize doc) cleanName > maxNameWidth \<and> nameFontSize > 20
      then shrinkName env cleanName maxNameWidth (nameFontSize - 2)
             (doc_setFontSize (of_int (nameFontSize - 2)) doc)
      else (nameFontSize, doc))"
  by pat_completeness auto
termination
  by (relation "measure (\<lambda>(env, cleanName, maxNameWidth, nameFontSize, doc). nat (nameFontSize - 20))") auto


text \<open>A block of statements under an \<open>if\<close> without \<open>else\<close>.\<close>

definition when_block :: "bool \<Rightarrow> (jsPDF \<Rightarrow> jsPDF) list \<Rightarrow> jsPDF \<Rightarrow> jsPDF" where
  "when_block b steps doc = (if b then run steps doc else doc)"

text \<open>
  The document the statements before \<open>doc.save\<close> build when each call of the
  library returns. The variables keep their names; \<open>doc1\<close> to \<open>doc6\<close> are the
  document at the points where the text metrics of the library are read.
\<close>

definition buildDocument :: "pdf_env \<Rightarrow> CertificateInput \<Rightarrow> jsPDF" where
  "buildDocument env data =
     (let (fontLoaded, doc0) = loadCustomFonts env new_jsPDF;
          pageWidth = pageWidth env;
          pageHeight = pageHeight env;
          centerX = pageWidth / 2;
          institution = nullish (institution data) default_institution;
          unit = nullish (departmentOrUnit data) default_unit;
          coordinatorTitle = nullish (coordinatorTitle data) default_coordinatorTitle;
          coordinatorName = nullish (coordinatorName data) [];
          location = nullish (location data) [];
          certificateNo = nullish (certificateNo data) [];
          doc1 = run
            [setFont fontLoaded Normal,
             draw (Rect 0 0 pageWidth pageHeight),
             draw (Rect 8 8 (pageWidth - 16) (pageHeight - 16)),
             draw (Rect 12 12 (pageWidth - 24) (pageHeight - 24)),
             draw (DNAHelix 20 35 120 0.9),
             draw (DNAHelix (pageWidth - 35) 35 120 0.9),
             draw (Atom 22 22 1.3),
             draw (Atom (pageWidth - 22) 22 1.3),
             draw (Atom 22 (pageHeight - 22) 1.3),
             draw (Atom (pageWidth - 22) (pageHeight - 22) 1.3),
             draw (Circle centerX 36 12),
             draw (Microscope centerX 36 0.9),
             doc_setFontSize 12,
             setFont fontLoaded Normal,
             doc_text (Str (t fontLoaded institution)) centerX 55 AlignCenter,
             doc_setFontSize 10.5,
             doc_text (Str (t fontLoaded unit)) centerX 61 AlignCenter,
             setFont fontLoaded Bold,
             doc_setFontSize 32,
             doc_text (Str (t fontLoaded title_text)) centerX 78 AlignCenter,
             setFont fontLoaded Normal,
             doc_setFontSize 14] doc0;
          intro = t fontLoaded introRaw;
          introLines = splitTextToSize env (font doc1) (fontSize doc1) intro (pageWidth - 90);
          rawName = toLocaleUpperCase env (cert_name data);
          cleanName = t fontLoaded rawName;
          doc2 = run
            [doc_text (Lines introLines) centerX 92 AlignCenter,
             setFont fontLoaded Bold,
             doc_setFontSize 40] doc1;
          maxNameWidth = pageWidth - 90;
          (nameFontSize, doc3) = shrinkName env cleanName maxNameWidth 40 doc2;
          nameY = 122;
          impactRaw = trim (impactMessage data);
          impactTextBase = (if length impactRaw > 0 then impactRaw else default_impact);
          impactText = t fontLoaded impactTextBase;
          doc4 = run
            [doc_text (Str cleanName) centerX nameY AlignCenter,
             draw (Line (centerX - 55) (nameY + 8) (centerX + 55) (nameY + 8)),
             setFont fontLoaded Normal,
             doc_setFontSize 12.5] doc3;
          impactLines = splitTextToSize env (font doc4) (fontSize doc4) impactText (pageWidth - 100);
          impactY = 142;
          doc5 = run
            [doc_text (Lines impactLines) centerX impactY AlignCenter,
             doc_setFontSize 12.5] doc4;
          closing = t fontLoaded closingRaw;
          closingY = impactY + real (length impactLines) * 7.2 + 8;
          closingLines = splitTextToSize env (font doc5) (fontSize doc5) closing (pageWidth - 90);
          footerY = pageHeight - 28;
          leftX = 30;
          dateLabel = t fontLoaded dateLabelRaw;
          locPart = (if location \<noteq> [] then t fontLoaded location @ js '', '' else []);
          sigX = pageWidth - 78;
          doc6 = run
            [doc_text (Lines closingLines) centerX closingY AlignCenter,
             setFont fontLoaded Normal,
             doc_setFontSize 10.5,
             doc_text (Str (locPart @ dateLabel @ js '': '' @ cert_date data)) leftX footerY AlignLeft,
             when_block (certificateNo \<noteq> [])
               [doc_setFontSize 9.5,
                doc_text (Str (t fontLoaded certNoLabelRaw @ js '': '' @ certificateNo))
                  leftX (footerY + 6) AlignLeft],
             draw (Line sigX (footerY - 6) (sigX + 48) (footerY - 6)),
             setFont fontLoaded Bold,
             doc_setFontSize 10.5,
             doc_text (Str (t fontLoaded coordinatorTitle)) (sigX + 24) footerY AlignCenter,
             when_block (trim coordinatorName \<noteq> [])
               [setFont fontLoaded Normal,
                doc_setFontSize 9.5,
                doc_text (Str (t fontLoaded coordinatorName)) (sigX + 24) (footerY + 5.5) AlignCenter]]
            doc5
      in doc6)"

text \<open>The file name of the last statements of the generator.\<close>

definition safeFileName :: "jsstring \<Rightarrow> jsstring" where
  "safeFileName name = replace_non_word (replace_ws_runs (trim (sanitizeText name)))"

definition fileName :: "jsstring \<Rightarrow> jsstring" where
  "fileName name = safeFileName name @ js ''_GonulluKatilimSertifikasi.pdf''"

text \<open>
  One call of \<open>doc.save\<close>: the file name and the document handed over.

  The generator catches nothing. When a call of the library throws before
  \<open>doc.save\<close>, the generator throws that error and \<open>doc.save\<close> is not called;
  otherwise it calls \<open>doc.save\<close> once, and throws what \<open>doc.save\<close> throws. It
  returns the call of \<open>doc.save\<close> it made, if it made one, and \<open>Inl\<close> with the
  error when it threw.
\<close>

record save_call =
  file_name :: jsstring
  document :: jsPDF

definition generateCertificatePDF ::
    "pdf_env \<Rightarrow> CertificateInput \<Rightarrow> save_call option \<times> (js_error + unit)" where
  "generateCertificatePDF env data =
     (let doc = buildDocument env data
      in case library_throws env data doc of
           Some err \<Rightarrow> (None, Inl err)
         | None \<Rightarrow>
             (Some \<lparr>file_name = fileName (cert_name data), document = doc\<rparr>,
              save env (fileName (cert_name data)) doc))"

section \<open>App: the form and the issuance counter\<close>

text \<open>
  The messages of the form: "Uzgunuz, bu cihazdan maksimum 2 sertifika olusturma
  limitine ulastiniz." and "Sertifika PDF dosyasi olusturulurken bir hata olustu.
  Lutfen internet baglantinizi kontrol edip tekrar deneyin.", with their Turkish
  letters.
\<close>

definition limit_error :: jsstring where
  "limit_error =
     [0xDC] @ js ''zg'' @ [0xFC] @ js ''n'' @ [0xFC]
     @ js ''z, bu cihazdan maksimum 2 sertifika olu'' @ [0x15F] @ js ''turma limitine ula''
     @ [0x15F] @ js ''t'' @ [0x131] @ js ''n'' @ [0x131] @ js ''z.''"

definition pdf_error :: jsstring where
  "pdf_error =
     js ''Sertifika PDF dosyas'' @ [0x131] @ js '' olu'' @ [0x15F]
     @ js ''turulurken bir hata olu'' @ [0x15F] @ js ''tu. L'' @ [0xFC]
     @ js ''tfen internet ba'' @ [0x11F] @ js ''lant'' @ [0x131] @ js ''n'' @ [0x131]
     @ js ''z'' @ [0x131] @ js '' kontrol edip tekrar deneyin.''"

record UserStats =
  stats_count :: int
  lastGenerated :: jsstring

text \<open>The state variables of the component, with the names of the source.\<close>

record app_state =
  name :: jsstring
  ip :: "jsstring option"
  count :: int
  loading :: bool
  error :: "jsstring option"
  isSuccess :: bool

text \<open>
  The browser around the component: the local storage, whose values are the
  records that \<open>JSON.stringify\<close> writes and \<open>JSON.parse\<close> reads back, the names
  handed to the message composer, and the calls of \<open>doc.save\<close>, both in order.
\<close>

record browser =
  localStorage :: "jsstring \<rightharpoonup> UserStats"
  composed :: "jsstring list"
  saves :: "save_call list"

text \<open>
  What one run of the component reads from outside: the two services, the
  address lookup (it throws or returns the address), and the clock as the two
  strings the handler takes from it.
\<close>

record app_env =
  gemini :: gemini_env
  pdf :: pdf_env
  ipify :: "js_error + jsstring"
  today :: jsstring
  nowISO :: jsstring

definition initial_state :: app_state where
  "initial_state =
     \<lparr>name = [], ip = None, count = 0, loading = False, error = None, isSuccess = False\<rparr>"

text \<open>The effect run once when the component is mounted.\<close>

definition fetchIpAndCheckLimit :: "app_env \<Rightarrow> app_state \<times> browser \<Rightarrow> app_state \<times> browser" where
  "fetchIpAndCheckLimit env sw =
     (let (s, w) = sw in
      case ipify env of
        Inr addr \<Rightarrow>
          (case localStorage w (js ''cert_stats_'' @ addr) of
             Some stats \<Rightarrow> (s\<lparr>ip := Some addr, count := stats_count stats\<rparr>, w)
           | None \<Rightarrow> (s\<lparr>ip := Some addr\<rparr>, w))
      | Inl err \<Rightarrow>
          (case localStorage w (js ''cert_stats_generic'') of
             Some stats \<Rightarrow> (s\<lparr>count := stats_count stats\<rparr>, w)
           | None \<Rightarrow> (s, w)))"

text \<open>The storage key of the handler: the address when there is one, else the generic key.\<close>

definition storageKey :: "jsstring option \<Rightarrow> jsstring" where
  "storageKey address =
     (case address of
        Some addr \<Rightarrow> if addr \<noteq> [] then js ''cert_stats_'' @ addr else js ''cert_stats_generic''
      | None \<Rightarrow> js ''cert_stats_generic'')"

text \<open>
  The submit handler. The two early returns come first; then the \<open>try\<close> block,
  whose \<open>catch\<close> takes whatever the composer or the generator throws and sets
  the error message, and the \<open>finally\<close> block, which clears \<open>loading\<close>. The
  browser records the call of \<open>doc.save\<close> when the generator made one. The timer
  that hides the success banner is left out.
\<close>

definition handleGenerate :: "app_env \<Rightarrow> app_state \<times> browser \<Rightarrow> app_state \<times> browser" where
  "handleGenerate env sw =
     (let (s, w) = sw in
      if trim (name s) = [] then (s, w)
      else if count s \<ge> 2 then (s\<lparr>error := Some limit_error\<rparr>, w)
      else
        let s1 = s\<lparr>loading := True, error := None\<rparr>;
            w1 = w\<lparr>composed := composed w @ [name s]\<rparr>
        in case generateImpactMessage (gemini env) (name s) of
             Inl err \<Rightarrow> (s1\<lparr>error := Some pdf_error, loading := False\<rparr>, w1)
           | Inr impact \<Rightarrow>
               let date = today env;
                   (call, result) = generateCertificatePDF (pdf env)
                     \<lparr>cert_name = name s, cert_date = date, impactMessage = impact,
                      institution = None, departmentOrUnit = None, coordinatorTitle = None,
                      coordinatorName = None, location = None, certificateNo = None\<rparr>;
                   w2 = w1\<lparr>saves := saves w1 @ (case call of None \<Rightarrow> [] | Some c \<Rightarrow> [c])\<rparr>
               in case result of
                    Inl err \<Rightarrow> (s1\<lparr>error := Some pdf_error, loading := False\<rparr>, w2)
                  | Inr done \<Rightarrow>
                      let newCount = count s + 1;
                          stats = \<lparr>stats_count = newCount, lastGenerated = nowISO env\<rparr>
                      in (s1\<lparr>count := newCount, isSuccess := True, name := [], loading := False\<rparr>,
                          w2\<lparr>localStorage := (localStorage w2)(storageKey (ip s) \<mapsto> stats)\<rparr>))"

text \<open>The two values the page derives from the count.\<close>

definition limitReached :: "int \<Rightarrow> bool" where
  "limitReached c \<longleftrightarrow> c \<ge> 2"

definition remaining :: "int \<Rightarrow> int" where
  "remaining c = max 0 (2 - c)"


section \<open>Notions used by the properties\<close>

text \<open>What \<open>sanitizeText\<close> does to one code unit: the table, applied in order.\<close>

definition sanitize_char :: "jschar \<Rightarrow> jschar" where
  "sanitize_char c = foldl (\<lambda>x (a, b). if x = a then b else x) c sanitize_table"

text \<open>The sizes the loop of the name can reach: from 40 in steps of 2 down to 20.\<close>

definition name_sizes :: "int list" where
  "name_sizes = [40, 38, 36, 34, 32, 30, 28, 26, 24, 22, 20]"

text \<open>The family \<open>setFont\<close> selects: Roboto when the fonts loaded, else the built-in Times.\<close>

definition text_family :: "bool \<Rightarrow> font_family" where
  "text_family fontLoaded = (if fontLoaded then Roboto else Times)"

text \<open>
  The size the loop of the name ends with, run as the generator runs it: on a
  document in the bold font at size 40, from 40, against the page width less 90.
\<close>

definition resolved_name_size :: "pdf_env \<Rightarrow> bool \<Rightarrow> jsstring \<Rightarrow> int" where
  "resolved_name_size env fontLoaded cleanName =
     fst (shrinkName env cleanName (pageWidth env - 90) 40
            (run [setFont fontLoaded Bold, doc_setFontSize 40] new_jsPDF))"

text \<open>
  The file name as the specification words it: the transliterated name with
  each run of white space replaced by one underscore and every character
  outside \<open>[A-Za-z0-9_]\<close> stripped, followed by the fixed suffix.
\<close>

definition spec_fileName :: "jsstring \<Rightarrow> jsstring" where
  "spec_fileName n =
     filter is_word (replace_ws_runs (sanitizeText n)) @ js ''_GonulluKatilimSertifikasi.pdf''"

text \<open>The counter persisted under a key; a key without a record has issued nothing.\<close>

definition persisted :: "browser \<Rightarrow> jsstring \<Rightarrow> int" where
  "persisted w k = (case localStorage w k of None \<Rightarrow> 0 | Some stats \<Rightarrow> stats_count stats)"

text \<open>
  What the two awaited calls of the \<open>try\<close> block of the handler come to for a
  state: the call of \<open>doc.save\<close> made, if one was made, and \<open>Inl\<close> when one of the
  two threw, \<open>Inr\<close> when the file is delivered.
\<close>

definition issuance :: "app_env \<Rightarrow> app_state \<Rightarrow> save_call option \<times> (js_error + unit)" where
  "issuance env s =
     (case generateImpactMessage (gemini env) (name s) of
        Inl err \<Rightarrow> (None, Inl err)
      | Inr impact \<Rightarrow>
          generateCertificatePDF (pdf env)
            \<lparr>cert_name = name s, cert_date = today env, impactMessage = impact,
             institution = None, departmentOrUnit = None, coordinatorTitle = None,
             coordinatorName = None, location = None, certificateNo = None\<rparr>)"


text \<open>
  A call of the handler is blocked when all it does is set the limit message;
  it attempts an issuance when it goes on to call the message composer.
\<close>

definition blocked :: "app_env \<Rightarrow> app_state \<times> browser \<Rightarrow> bool" where
  "blocked env sw \<longleftrightarrow> handleGenerate env sw = ((fst sw)\<lparr>error := Some limit_error\<rparr>, snd sw)"

definition attempts :: "app_env \<Rightarrow> app_state \<times> browser \<Rightarrow> bool" where
  "attempts env sw \<longleftrightarrow>
     composed (snd (handleGenerate env sw)) = composed (snd sw) @ [name (fst sw)]"


text \<open>The object the handler hands to the generator, with the message the composer returned.\<close>

definition request :: "app_env \<Rightarrow> app_state \<Rightarrow> CertificateInput" where
  "request env s =
     \<lparr>cert_name = name s, cert_date = today env,
      impactMessage = (case generateImpactMessage (gemini env) (name s) of
                         Inl err \<Rightarrow> [] | Inr impact \<Rightarrow> impact),
      institution = None, departmentOrUnit = None, coordinatorTitle = None,
      coordinatorName = None, location = None, certificateNo = None\<rparr>"

text \<open>
  The client key: the storage key under which the effect run at mounting looks
  the client up, by its address or, when the lookup fails, the generic key.
\<close>

definition client_key :: "app_env \<Rightarrow> jsstring" where
  "client_key env =
     (case ipify env of
        Inr addr \<Rightarrow> js ''cert_stats_'' @ addr
      | Inl err \<Rightarrow> js ''cert_stats_generic'')"


text \<open>Every string the document draws, in order.\<close>

fun texts_of :: "draw_op \<Rightarrow> jsstring list" where
  "texts_of (Text (Str s) x y a f st sz) = [s]"
| "texts_of (Text (Lines ls) x y a f st sz) = ls"
| "texts_of other = []"

definition rendered_texts :: "jsPDF \<Rightarrow> jsstring list" where
  "rendered_texts doc = concat (map texts_of (ops doc))"

section \<open>Concrete inputs\<close>

text \<open>
  An environment without network: no font mirror answers. Its upper-casing
  follows \<open>tr-TR\<close> on the ASCII letters and the dotless i, a text is as wide as
  half its size per code unit, and no text is wrapped.
\<close>

definition test_upper :: "jsstring \<Rightarrow> jsstring" where
  "test_upper s =
     map (\<lambda>c. if c = 0x69 then 0x130 else if c = 0x131 then 0x49
               else if 0x61 \<le> c \<and> c \<le> 0x7A then c - 0x20 else c) s"

definition offline_pdf :: pdf_env where
  "offline_pdf =
     \<lparr>fetch = (\<lambda>url. Inl (Error (js ''Failed to fetch''))),
      btoa = (\<lambda>bytes. []),
      pageWidth = 297,
      pageHeight = 210,
      toLocaleUpperCase = test_upper,
      getTextWidth = (\<lambda>f sz s. sz * real (length s) / 2),
      splitTextToSize = (\<lambda>f sz s width. [s]),
      library_throws = (\<lambda>data doc. None),
      save = (\<lambda>file doc. Inr ())\<rparr>"

definition failing_save_pdf :: pdf_env where
  "failing_save_pdf = offline_pdf\<lparr>save := (\<lambda>file doc. Inl (Error (js ''save failed'')))\<rparr>"


text \<open>A text service without credential: it rejects the empty key.\<close>

definition keyless_gemini :: gemini_env where
  "keyless_gemini =
     \<lparr>API_KEY = None,
      generateContent = (\<lambda>ai request.
        if apiKey ai = [] then Inl (Error (js ''API key not valid''))
        else Inr \<lparr>response_text = Some (js ''Thank you.'')\<rparr>)\<rparr>"

definition test_env :: app_env where
  "test_env =
     \<lparr>gemini = keyless_gemini, pdf = offline_pdf, ipify = Inr (js ''203.0.113.7''),
      today = js ''01.01.2025'', nowISO = js ''2025-01-01T09:00:00.000Z''\<rparr>"

definition empty_browser :: browser where
  "empty_browser = \<lparr>localStorage = Map.empty, composed = [], saves = []\<rparr>"



text \<open>The name "Ahmet Yilmaz" with its dotless i, and the name of the placeholder of the form.\<close>

definition ahmet :: jsstring where
  "ahmet = js ''Ahmet Y'' @ [0x131] @ js ''lmaz''"

definition dr_ahmet :: jsstring where
  "dr_ahmet = js ''Dr. Ahmet Y'' @ [0x131] @ js ''lmaz''"

text \<open>The word "milli" written with i-circumflex at its end.\<close>

definition milli :: jsstring where
  "milli = js ''mill'' @ [0xEE]"

text \<open>
  The storage of a client that was issued two certificates; and a client
  without record, after the component is mounted and after one and two
  submissions.
\<close>

definition two_issued :: browser where
  "two_issued =
     empty_browser\<lparr>localStorage :=
       [js ''cert_stats_203.0.113.7'' \<mapsto>
          \<lparr>stats_count = 2, lastGenerated = js ''2025-01-01T09:00:00.000Z''\<rparr>]\<rparr>"




text \<open>A request whose certificate number holds a capital o-diaeresis.\<close>

definition numbered_request :: CertificateInput where
  "numbered_request =
     \<lparr>cert_name = ahmet, cert_date = js ''01.01.2025'', impactMessage = [],
      institution = None, departmentOrUnit = None, coordinatorTitle = None,
      coordinatorName = None, location = None,
      certificateNo = Some (js ''2025-G'' @ [0xD6] @ js ''N-0142'')\<rparr>"


section \<open>Transliteration\<close>

text \<open>
  The recursive equations of the two loops are unfolded by hand, one round at
  a time.
\<close>

declare shrinkName.simps [simp del] decimal.simps [simp del]

lemma foldl_replaceAll:
  "foldl (\<lambda>s (a, b). replaceAll a b s) s tab =
   map (\<lambda>c. foldl (\<lambda>x (a, b). if x = a then b else x) c tab) s"
proof (induction tab arbitrary: s)
  case Nil
  then show ?case by simp
next
  case (Cons p tab)
  obtain a b where p: "p = (a, b)" by (cases p)
  show ?case by (simp add: p Cons.IH) (simp add: replaceAll_def comp_def)
qed

lemma sanitizeText_map: "sanitizeText s = map sanitize_char s"
  unfolding sanitizeText_def sanitize_char_def by (rule foldl_replaceAll)

text \<open>
  A letter outside the table is left as it is, and no letter the table writes
  is a letter it replaces: a second pass changes nothing.
\<close>

lemma sanitize_char_fixed: "c \<notin> fst ` set sanitize_table \<Longrightarrow> sanitize_char c = c"
  by (simp add: sanitize_char_def sanitize_table_def)

lemma sanitize_char_image: "sanitize_char c \<notin> fst ` set sanitize_table"
  by (simp add: sanitize_char_def sanitize_table_def)

lemma sanitize_char_idem: "sanitize_char (sanitize_char c) = sanitize_char c"
  by (rule sanitize_char_fixed) (rule sanitize_char_image)

lemma sanitizeText_idem: "sanitizeText (sanitizeText x) = sanitizeText x"
  by (simp add: sanitizeText_map sanitize_char_idem)

text \<open>The diacritic letters the table leaves: the four i and u with circumflex.\<close>

lemma sanitize_char_diacritic:
  "is_diacritic (sanitize_char c) \<longleftrightarrow> c \<in> set [0xEE, 0xCE, 0xFB, 0xDB]"
  by (simp add: is_diacritic_def turkish_diacritics_def sanitize_char_def sanitize_table_def)

lemma sanitize_clean:
  "list_all (\<lambda>c. c \<notin> set [0xEE, 0xCE, 0xFB, 0xDB]) s \<Longrightarrow> filter is_diacritic (sanitizeText s) = []"
  by (induction s) (simp_all add: sanitizeText_map sanitize_char_diacritic del: set_simps)

lemma ahmet_units: "ahmet = [65, 104, 109, 101, 116, 32, 89, 0x131, 108, 109, 97, 122]"
  by (simp add: ahmet_def js_def)

lemma sanitize_ahmet: "sanitizeText ahmet = js ''Ahmet Yilmaz''"
  by (simp add: ahmet_units sanitizeText_map sanitize_char_def sanitize_table_def js_def)

text \<open>
  Claim C4, on the code. \<open>sanitizeText\<close> is idempotent for every string. Its
  result can hold a diacritic letter of Turkish: the table has rows for a with
  circumflex and none for i and u with circumflex, so "milli" written with
  i-circumflex comes back as it went in.
\<close>

theorem sanitizeText_keeps_circumflex:
  "sanitizeText (sanitizeText x) = sanitizeText x \<and>
   is_diacritic 0xEE \<and>
   sanitizeText milli = milli \<and>
   filter is_diacritic (sanitizeText milli) = [0xEE] \<and>
   sanitizeText (js ''k'' @ [0xE2] @ js ''tip'') = js ''katip''"
proof -
  have d: "is_diacritic 0xEE" by (simp add: is_diacritic_def turkish_diacritics_def)
  have m: "sanitizeText milli = milli"
    by (simp add: milli_def sanitizeText_map sanitize_char_def sanitize_table_def js_def)
  have f: "filter is_diacritic milli = [0xEE]"
    by (simp add: milli_def js_def is_diacritic_def turkish_diacritics_def)
  have k: "sanitizeText (js ''k'' @ [0xE2] @ js ''tip'') = js ''katip''"
    by (simp add: sanitizeText_map sanitize_char_def sanitize_table_def js_def)
  from sanitizeText_idem [of x] d m f k show ?thesis by simp
qed

section \<open>The message composer\<close>

lemma impact_message_returns: "generateImpactMessage env n \<noteq> Inl err"
  by (simp add: generateImpactMessage_def Let_def split: sum.splits)

text \<open>
  Claim C8. For every name and every behaviour of the remote service,
  \<open>generateImpactMessage\<close> returns a message and throws nothing. When the remote
  call throws (transport error, rejected or missing credential, malformed
  reply), when the response has no text, and when its text is blank, the
  message is the fixed default sentence; otherwise it is the trimmed text.
\<close>

theorem generateImpactMessage_never_throws:
  "(\<exists>m. generateImpactMessage env n = Inr m) \<and>
   (case generateContent env (ai_client env) (impact_request n) of
      Inl err \<Rightarrow> generateImpactMessage env n = Inr gemini_default
    | Inr response \<Rightarrow>
        (case response_text response of
           None \<Rightarrow> generateImpactMessage env n = Inr gemini_default
         | Some txt \<Rightarrow>
             if trim txt = [] then generateImpactMessage env n = Inr gemini_default
             else generateImpactMessage env n = Inr (trim txt)))"
  by (simp add: generateImpactMessage_def Let_def or_else_def split: sum.splits option.splits)

text \<open>Without credential the key is the empty string, the service rejects it, and the default comes back.\<close>

theorem generateImpactMessage_never_throws_witness:
  "API_KEY keyless_gemini = None \<and>
   apiKey (ai_client keyless_gemini) = [] \<and>
   generateContent keyless_gemini (ai_client keyless_gemini) (impact_request ahmet)
     = Inl (Error (js ''API key not valid'')) \<and>
   generateImpactMessage keyless_gemini ahmet = Inr gemini_default"
  using generateImpactMessage_never_throws [of keyless_gemini ahmet]
  by (simp add: keyless_gemini_def ai_client_def or_else_def)

section \<open>The submit handler\<close>

text \<open>
  The ways a submission with a name ends. At the cap it is blocked. Below the
  cap the composer is called; then the generator either throws, before or in
  \<open>doc.save\<close>, and the handler sets the error message and keeps the count, or
  delivers, and the handler counts and stores.
\<close>

lemma handle_blocked:
  "trim (name s) \<noteq> [] \<Longrightarrow> count s \<ge> 2 \<Longrightarrow>
   handleGenerate env (s, w) = (s\<lparr>error := Some limit_error\<rparr>, w)"
  by (simp add: handleGenerate_def)

lemma handle_thrown:
  assumes "trim (name s) \<noteq> []" and "count s < 2" and "snd (issuance env s) = Inl err"
  shows "handleGenerate env (s, w) =
           (s\<lparr>loading := False, error := Some pdf_error\<rparr>,
            w\<lparr>composed := composed w @ [name s],
              saves := saves w @ (case fst (issuance env s) of None \<Rightarrow> [] | Some c \<Rightarrow> [c])\<rparr>)"
  using assms impact_message_returns [of "gemini env" "name s"]
  by (auto simp: handleGenerate_def issuance_def Let_def split: sum.splits prod.splits)

lemma handle_delivered:
  assumes "trim (name s) \<noteq> []" and "count s < 2" and "snd (issuance env s) = Inr u"
  shows "handleGenerate env (s, w) =
           (s\<lparr>loading := False, error := None, count := count s + 1, isSuccess := True,
              name := []\<rparr>,
            w\<lparr>composed := composed w @ [name s],
              saves := saves w @ (case fst (issuance env s) of None \<Rightarrow> [] | Some c \<Rightarrow> [c]),
              localStorage := (localStorage w)(storageKey (ip s) \<mapsto>
                \<lparr>stats_count = count s + 1, lastGenerated = nowISO env\<rparr>)\<rparr>)"
  using assms impact_message_returns [of "gemini env" "name s"]
  by (auto simp: handleGenerate_def issuance_def Let_def split: sum.splits prod.splits)

lemma handle_attempts:
  assumes "trim (name s) \<noteq> []" and "count s < 2"
  shows "composed (snd (handleGenerate env (s, w))) = composed w @ [name s]"
proof (cases "snd (issuance env s)")
  case (Inl err)
  from handle_thrown [OF assms Inl, of w] show ?thesis by simp
next
  case (Inr u)
  from handle_delivered [OF assms Inr, of w] show ?thesis by simp
qed





lemma blocked_iff: "trim (name s) \<noteq> [] \<Longrightarrow> blocked env (s, w) \<longleftrightarrow> count s \<ge> 2"
proof (cases "count s \<ge> 2")
  case True
  assume "trim (name s) \<noteq> []"
  from handle_blocked [OF this True] True show ?thesis by (simp add: blocked_def)
next
  case False
  assume n: "trim (name s) \<noteq> []"
  from False have c: "count s < 2" by simp
  from handle_attempts [OF n c, of env w]
  have "snd (handleGenerate env (s, w)) \<noteq> w" by auto
  with False show ?thesis by (auto simp: blocked_def)
qed

lemma attempts_iff: "trim (name s) \<noteq> [] \<Longrightarrow> attempts env (s, w) \<longleftrightarrow> count s < 2"
proof (cases "count s \<ge> 2")
  case True
  assume "trim (name s) \<noteq> []"
  from handle_blocked [OF this True] True show ?thesis by (simp add: attempts_def)
next
  case False
  assume n: "trim (name s) \<noteq> []"
  from False have c: "count s < 2" by simp
  from handle_attempts [OF n c, of env w] c show ?thesis by (simp add: attempts_def)
qed

text \<open>What the effect run at mounting reads: the count stored under the client key.\<close>

lemma mount_count:
  "count (fst (fetchIpAndCheckLimit env (initial_state, w))) = persisted w (client_key env)"
  "snd (fetchIpAndCheckLimit env (initial_state, w)) = w"
  by (simp_all add: fetchIpAndCheckLimit_def client_key_def persisted_def initial_state_def
        split: sum.splits option.splits)


lemma trim_blank: "trim (js ''   '') = []"
  by (simp add: trim_def js_def is_ws_def)

lemma trim_ahmet: "trim ahmet = ahmet"
  by (simp add: ahmet_units trim_def is_ws_def)

lemma ahmet_not_blank: "trim ahmet \<noteq> []"
  by (simp add: trim_ahmet) (simp add: ahmet_units)

text \<open>
  Claim C10. When the name is empty or only white space, the handler returns
  at once: the state (count, error message and all) and the browser (storage,
  composer calls, saved documents) are what they were.
\<close>

theorem blank_name_no_op:
  "trim (name s) = [] \<Longrightarrow> handleGenerate env (s, w) = (s, w)"
  by (simp add: handleGenerate_def)

theorem blank_name_no_op_witness:
  "trim (js ''   '') = [] \<and>
   handleGenerate test_env (initial_state\<lparr>name := js ''   ''\<rparr>, empty_browser)
     = (initial_state\<lparr>name := js ''   ''\<rparr>, empty_browser)"
  using blank_name_no_op [of "initial_state\<lparr>name := js ''   ''\<rparr>" test_env empty_browser]
  by (simp add: trim_blank)

text \<open>
  Claim C7. The page shows \<open>max(0, 2 - count)\<close> as the remaining count, which is
  2, 1, 0, 0 for the counts 0, 1, 2, 3, and the limit is reached exactly when
  the count is at least 2. A submission with a name is blocked, the handler
  only setting the limit message, exactly when the count is at least 2, and
  goes on to the message composer exactly when it is below 2. The count is the
  stored one: for every record stored under the client key, after mounting the
  page shows \<open>max(0, 2 - c)\<close> for its count \<open>c\<close> and blocks exactly when \<open>c\<close> is at
  least 2.
\<close>

theorem remaining_and_block:
  "remaining c = max 0 (2 - c) \<and>
   map remaining [0, 1, 2, 3] = [2, 1, 0, 0] \<and>
   (limitReached c \<longleftrightarrow> c \<ge> 2) \<and>
   (trim (name s) \<noteq> [] \<longrightarrow>
      (blocked env (s, w) \<longleftrightarrow> count s \<ge> 2) \<and> (attempts env (s, w) \<longleftrightarrow> count s < 2)) \<and>
   (localStorage w (client_key env) = Some stats \<longrightarrow>
      (let mounted = fetchIpAndCheckLimit env (initial_state, w)
       in count (fst mounted) = stats_count stats \<and>
          remaining (count (fst mounted)) = max 0 (2 - stats_count stats) \<and>
          (limitReached (count (fst mounted)) \<longleftrightarrow> stats_count stats \<ge> 2) \<and>
          (\<forall>n. trim n \<noteq> [] \<longrightarrow>
             (blocked env ((fst mounted)\<lparr>name := n\<rparr>, snd mounted)
                \<longleftrightarrow> stats_count stats \<ge> 2))))"
proof -
  have a: "remaining c = max 0 (2 - c)" by (simp add: remaining_def)
  have b: "map remaining [0, 1, 2, 3] = [2, 1, 0, 0]" by (simp add: remaining_def)
  have l: "limitReached c \<longleftrightarrow> c \<ge> 2" by (simp add: limitReached_def)
  have g: "trim (name s) \<noteq> [] \<longrightarrow>
      (blocked env (s, w) \<longleftrightarrow> count s \<ge> 2) \<and> (attempts env (s, w) \<longleftrightarrow> count s < 2)"
    by (simp add: blocked_iff attempts_iff)
  have m: "localStorage w (client_key env) = Some stats \<longrightarrow>
      (let mounted = fetchIpAndCheckLimit env (initial_state, w)
       in count (fst mounted) = stats_count stats \<and>
          remaining (count (fst mounted)) = max 0 (2 - stats_count stats) \<and>
          (limitReached (count (fst mounted)) \<longleftrightarrow> stats_count stats \<ge> 2) \<and>
          (\<forall>n. trim n \<noteq> [] \<longrightarrow>
             (blocked env ((fst mounted)\<lparr>name := n\<rparr>, snd mounted)
                \<longleftrightarrow> stats_count stats \<ge> 2)))"
  proof
    assume r: "localStorage w (client_key env) = Some stats"
    let ?m = "fetchIpAndCheckLimit env (initial_state, w)"
    from r mount_count(1) [of env w] have c: "count (fst ?m) = stats_count stats"
      by (simp add: persisted_def)
    have "blocked env ((fst ?m)\<lparr>name := n\<rparr>, snd ?m) \<longleftrightarrow> stats_count stats \<ge> 2"
      if "trim n \<noteq> []" for n
      using blocked_iff [of "(fst ?m)\<lparr>name := n\<rparr>" env "snd ?m"] that c by simp
    with c show "let mounted = ?m
       in count (fst mounted) = stats_count stats \<and>
          remaining (count (fst mounted)) = max 0 (2 - stats_count stats) \<and>
          (limitReached (count (fst mounted)) \<longleftrightarrow> stats_count stats \<ge> 2) \<and>
          (\<forall>n. trim n \<noteq> [] \<longrightarrow>
             (blocked env ((fst mounted)\<lparr>name := n\<rparr>, snd mounted)
                \<longleftrightarrow> stats_count stats \<ge> 2))"
      by (simp add: Let_def remaining_def limitReached_def)
  qed
  from a b l g m show ?thesis by blast
qed

text \<open>
  A client with two certificates on record: after mounting the page shows 0
  and a submission is blocked. At a count of 1 the page shows 1 and a
  submission goes on to the composer.
\<close>

theorem remaining_and_block_witness:
  "localStorage two_issued (client_key test_env)
     = Some \<lparr>stats_count = 2, lastGenerated = js ''2025-01-01T09:00:00.000Z''\<rparr> \<and>
   count (fst (fetchIpAndCheckLimit test_env (initial_state, two_issued))) = 2 \<and>
   remaining (count (fst (fetchIpAndCheckLimit test_env (initial_state, two_issued)))) = 0 \<and>
   limitReached (count (fst (fetchIpAndCheckLimit test_env (initial_state, two_issued)))) \<and>
   trim ahmet \<noteq> [] \<and>
   blocked test_env
     ((fst (fetchIpAndCheckLimit test_env (initial_state, two_issued)))\<lparr>name := ahmet\<rparr>,
      snd (fetchIpAndCheckLimit test_env (initial_state, two_issued))) \<and>
   remaining 1 = 1 \<and> \<not> limitReached 1 \<and>
   trim (name (initial_state\<lparr>name := ahmet, count := 1\<rparr>)) \<noteq> [] \<and>
   \<not> blocked test_env (initial_state\<lparr>name := ahmet, count := 1\<rparr>, empty_browser) \<and>
   attempts test_env (initial_state\<lparr>name := ahmet, count := 1\<rparr>, empty_browser)"
proof -
  let ?m = "fetchIpAndCheckLimit test_env (initial_state, two_issued)"
  let ?r = "\<lparr>stats_count = 2, lastGenerated = js ''2025-01-01T09:00:00.000Z''\<rparr>"
  have k: "client_key test_env = js ''cert_stats_203.0.113.7''"
    by (simp add: client_key_def test_env_def js_def)
  have r: "localStorage two_issued (client_key test_env) = Some ?r"
    by (simp add: k two_issued_def)
  note th = remaining_and_block [of 1 "initial_state\<lparr>name := ahmet, count := 1\<rparr>" test_env
      empty_browser ?r]
  note th2 = remaining_and_block [of 1 "initial_state\<lparr>name := ahmet, count := 1\<rparr>" test_env
      two_issued ?r, unfolded Let_def]
  from th2 r have c: "count (fst ?m) = 2" by simp
  from th2 r have "\<forall>n. trim n \<noteq> [] \<longrightarrow>
      (blocked test_env ((fst ?m)\<lparr>name := n\<rparr>, snd ?m) \<longleftrightarrow> stats_count ?r \<ge> 2)"
    by blast
  with ahmet_not_blank have b: "blocked test_env ((fst ?m)\<lparr>name := ahmet\<rparr>, snd ?m)"
    by simp
  have n: "trim (name (initial_state\<lparr>name := ahmet, count := 1\<rparr>)) \<noteq> []"
    using ahmet_not_blank by simp
  from th n have nb: "\<not> blocked test_env (initial_state\<lparr>name := ahmet, count := 1\<rparr>, empty_browser)"
    and at: "attempts test_env (initial_state\<lparr>name := ahmet, count := 1\<rparr>, empty_browser)"
    by simp_all
  from r c b n nb at ahmet_not_blank show ?thesis
    by (simp add: remaining_def limitReached_def)
qed

section \<open>The file name\<close>

lemma is_word_underscore: "is_word 0x5F"
  by (simp add: is_word_def)

lemma replace_non_word_word: "list_all is_word (replace_non_word s)"
  by (induction s) (simp_all add: replace_non_word_def is_word_underscore)

lemma safeFileName_word: "list_all is_word (safeFileName n)"
  by (simp add: safeFileName_def replace_non_word_word)

lemma fileName_ahmet: "fileName ahmet = js ''Ahmet_Yilmaz_GonulluKatilimSertifikasi.pdf''"
  by (simp add: fileName_def safeFileName_def sanitize_ahmet)
     (simp add: js_def trim_def is_ws_def replace_non_word_def is_word_def)

lemma sanitize_dr_ahmet: "sanitizeText dr_ahmet = js ''Dr. Ahmet Yilmaz''"
  by (simp add: dr_ahmet_def sanitizeText_map sanitize_char_def sanitize_table_def js_def)

lemma fileName_dr_ahmet: "fileName dr_ahmet = js ''Dr__Ahmet_Yilmaz_GonulluKatilimSertifikasi.pdf''"
  by (simp add: fileName_def safeFileName_def sanitize_dr_ahmet)
     (simp add: js_def trim_def is_ws_def replace_non_word_def is_word_def)

lemma spec_fileName_dr_ahmet:
  "spec_fileName dr_ahmet = js ''Dr_Ahmet_Yilmaz_GonulluKatilimSertifikasi.pdf''"
  by (simp add: spec_fileName_def sanitize_dr_ahmet)
     (simp add: js_def is_ws_def is_word_def)

text \<open>
  Claim C3, as stated, fails. For the name of the placeholder of the form,
  "Dr. Ahmet Yilmaz", stripping the full stop gives \<open>Dr_Ahmet_Yilmaz_...\<close>; the
  generator replaces the full stop by an underscore and saves
  \<open>Dr__Ahmet_Yilmaz_...\<close>, here with the fonts failing to load.
\<close>

theorem fileName_strips_counterexample:
  "spec_fileName dr_ahmet = js ''Dr_Ahmet_Yilmaz_GonulluKatilimSertifikasi.pdf'' \<and>
   map_option file_name (fst (generateCertificatePDF offline_pdf
      \<lparr>cert_name = dr_ahmet, cert_date = js ''01.01.2025'', impactMessage = [],
       institution = None, departmentOrUnit = None, coordinatorTitle = None,
       coordinatorName = None, location = None, certificateNo = None\<rparr>))
     = Some (js ''Dr__Ahmet_Yilmaz_GonulluKatilimSertifikasi.pdf'') \<and>
   map_option file_name (fst (generateCertificatePDF offline_pdf
      \<lparr>cert_name = dr_ahmet, cert_date = js ''01.01.2025'', impactMessage = [],
       institution = None, departmentOrUnit = None, coordinatorTitle = None,
       coordinatorName = None, location = None, certificateNo = None\<rparr>))
     \<noteq> Some (spec_fileName dr_ahmet)"
proof -
  have l: "library_throws offline_pdf data doc = None" for data doc
    by (simp add: offline_pdf_def)
  show ?thesis
    by (simp add: generateCertificatePDF_def Let_def l fileName_dr_ahmet spec_fileName_dr_ahmet)
       (simp add: js_def)
qed

text \<open>
  Claim C3, amended. For every name and every environment, so whether or not
  the fonts loaded, the file name the generator hands to \<open>doc.save\<close> is the
  transliterated name, trimmed, with each run of white space replaced by one
  underscore and then each remaining character outside \<open>[A-Za-z0-9_]\<close> replaced
  by an underscore (none is removed), followed by
  \<open>_GonulluKatilimSertifikasi.pdf\<close>; no file is handed over only when a call of
  the library throws before \<open>doc.save\<close>. The part before the suffix holds only
  characters of \<open>[A-Za-z0-9_]\<close>, and for "Ahmet Yilmaz" with the dotless i the
  file is \<open>Ahmet_Yilmaz_GonulluKatilimSertifikasi.pdf\<close>.
\<close>

theorem fileName_replaces:
  "map_option file_name (fst (generateCertificatePDF env data))
     = (if library_throws env data (buildDocument env data) = None
        then Some (map (\<lambda>c. if is_word c then c else 0x5F)
                     (replace_ws_runs (trim (sanitizeText (cert_name data))))
                   @ js ''_GonulluKatilimSertifikasi.pdf'')
        else None) \<and>
   list_all is_word (safeFileName (cert_name data)) \<and>
   length (safeFileName (cert_name data))
     = length (replace_ws_runs (trim (sanitizeText (cert_name data)))) \<and>
   (cert_name data = ahmet \<longrightarrow>
      map_option file_name (fst (generateCertificatePDF env data))
        = (if library_throws env data (buildDocument env data) = None
           then Some (js ''Ahmet_Yilmaz_GonulluKatilimSertifikasi.pdf'') else None))"
proof -
  have g: "map_option file_name (fst (generateCertificatePDF env data))
     = (if library_throws env data (buildDocument env data) = None
        then Some (fileName (cert_name data)) else None)"
    by (simp add: generateCertificatePDF_def Let_def split: option.splits)
  have f: "fileName (cert_name data)
     = map (\<lambda>c. if is_word c then c else 0x5F)
         (replace_ws_runs (trim (sanitizeText (cert_name data))))
       @ js ''_GonulluKatilimSertifikasi.pdf''"
    by (simp add: fileName_def safeFileName_def replace_non_word_def)
  have l: "length (safeFileName (cert_name data))
     = length (replace_ws_runs (trim (sanitizeText (cert_name data))))"
    by (simp add: safeFileName_def replace_non_word_def)
  have a: "cert_name data = ahmet \<longrightarrow>
      map_option file_name (fst (generateCertificatePDF env data))
        = (if library_throws env data (buildDocument env data) = None
           then Some (js ''Ahmet_Yilmaz_GonulluKatilimSertifikasi.pdf'') else None)"
    by (simp add: g fileName_ahmet)
  from g [unfolded f] safeFileName_word [of "cert_name data"] l a show ?thesis
    by blast
qed

theorem fileName_replaces_witness:
  "cert_name numbered_request = ahmet \<and>
   library_throws offline_pdf numbered_request (buildDocument offline_pdf numbered_request) = None \<and>
   map_option file_name (fst (generateCertificatePDF offline_pdf numbered_request))
     = Some (js ''Ahmet_Yilmaz_GonulluKatilimSertifikasi.pdf'') \<and>
   map_option file_name (fst (generateCertificatePDF failing_save_pdf numbered_request))
     = Some (js ''Ahmet_Yilmaz_GonulluKatilimSertifikasi.pdf'')"
proof -
  have n: "cert_name numbered_request = ahmet"
    by (simp add: numbered_request_def)
  have l: "library_throws offline_pdf data doc = None"
    "library_throws failing_save_pdf data doc = None" for data doc
    by (simp_all add: offline_pdf_def failing_save_pdf_def)
  from n l(1) fileName_replaces [of offline_pdf numbered_request]
  have a: "map_option file_name (fst (generateCertificatePDF offline_pdf numbered_request))
     = Some (js ''Ahmet_Yilmaz_GonulluKatilimSertifikasi.pdf'')"
    by simp
  from n l(2) fileName_replaces [of failing_save_pdf numbered_request]
  have b: "map_option file_name (fst (generateCertificatePDF failing_save_pdf numbered_request))
     = Some (js ''Ahmet_Yilmaz_GonulluKatilimSertifikasi.pdf'')"
    by simp
  from n l(1) a b show ?thesis by blast
qed

section \<open>The document\<close>

text \<open>
  One round of the loop of the name, and what the loop leaves alone: the
  operations and the font. The size of the document follows the size variable.
\<close>

lemma shrinkName_step:
  "getTextWidth env (font doc) (fontSize doc) cn > mw \<and> n > 20 \<Longrightarrow>
   shrinkName env cn mw n doc = shrinkName env cn mw (n - 2) (doc_setFontSize (of_int (n - 2)) doc)"
  by (simp add: shrinkName.simps [of env cn mw n doc])

lemma shrinkName_stop:
  "\<not> (getTextWidth env (font doc) (fontSize doc) cn > mw \<and> n > 20) \<Longrightarrow>
   shrinkName env cn mw n doc = (n, doc)"
  by (auto simp: shrinkName.simps [of env cn mw n doc])

lemma loadCustomFonts_frame:
  "ops (snd (loadCustomFonts env doc)) = ops doc"
  "font (snd (loadCustomFonts env doc)) = font doc"
  "fontSize (snd (loadCustomFonts env doc)) = fontSize doc"
  by (simp_all add: loadCustomFonts_def run_def doc_addFileToVFS_def doc_addFont_def
        split: sum.splits)

lemma shrinkName_frame:
  "ops (snd (shrinkName env cn mw n doc)) = ops doc \<and>
   font (snd (shrinkName env cn mw n doc)) = font doc"
proof (induction env cn mw n doc rule: shrinkName.induct)
  case (1 env cn mw n doc)
  show ?case
  proof (cases "getTextWidth env (font doc) (fontSize doc) cn > mw \<and> n > 20")
    case True
    with 1 show ?thesis by (simp add: shrinkName_step doc_setFontSize_def)
  next
    case False
    then show ?thesis by (simp add: shrinkName_stop)
  qed
qed

lemma shrinkName_size:
  "fontSize doc = real_of_int n \<Longrightarrow>
   fontSize (snd (shrinkName env cn mw n doc)) = real_of_int (fst (shrinkName env cn mw n doc))"
proof (induction env cn mw n doc rule: shrinkName.induct)
  case (1 env cn mw n doc)
  show ?case
  proof (cases "getTextWidth env (font doc) (fontSize doc) cn > mw \<and> n > 20")
    case True
    have "fontSize (doc_setFontSize (of_int (n - 2)) doc) = real_of_int (n - 2)"
      by (simp add: doc_setFontSize_def)
    from "1.IH" [OF True this] True show ?thesis by (simp add: shrinkName_step)
  next
    case False
    with "1.prems" show ?thesis by (simp add: shrinkName_stop)
  qed
qed

lemma shrinkName_fst_cong:
  "font doc = font doc' \<Longrightarrow> fontSize doc = fontSize doc' \<Longrightarrow>
   fst (shrinkName env cn mw n doc) = fst (shrinkName env cn mw n doc')"
proof (induction env cn mw n doc arbitrary: doc' rule: shrinkName.induct)
  case (1 env cn mw n doc)
  show ?case
  proof (cases "getTextWidth env (font doc) (fontSize doc) cn > mw \<and> n > 20")
    case True
    then have True': "getTextWidth env (font doc') (fontSize doc') cn > mw \<and> n > 20"
      using "1.prems" by simp
    have "fst (shrinkName env cn mw (n - 2) (doc_setFontSize (of_int (n - 2)) doc))
        = fst (shrinkName env cn mw (n - 2) (doc_setFontSize (of_int (n - 2)) doc'))"
      by (rule "1.IH" [OF True]) (simp_all add: doc_setFontSize_def "1.prems")
    then show ?thesis
      by (simp only: shrinkName_step [OF True] shrinkName_step [OF True'])
  next
    case False
    then have False': "\<not> (getTextWidth env (font doc') (fontSize doc') cn > mw \<and> n > 20)"
      using "1.prems" by simp
    show ?thesis
      by (simp only: shrinkName_stop [OF False] shrinkName_stop [OF False'] fst_conv)
  qed
qed

text \<open>
  The operations of the finished page, in the order the generator draws them.
  Only the two optional footer lines depend on the request being present.
\<close>

lemma setFont_eq: "setFont fl st doc = doc\<lparr>font := (text_family fl, st)\<rparr>"
  by (simp add: setFont_def doc_setFont_def text_family_def)

lemma when_block_ops: "ops (when_block b steps doc) = (if b then ops (run steps doc) else ops doc)"
  by (simp add: when_block_def)

lemma buildDocument_ops:
  "ops (buildDocument env data) =
     (let fl = fst (loadCustomFonts env new_jsPDF);
          fam = text_family fl;
          pw = pageWidth env;
          ph = pageHeight env;
          cleanName = t fl (toLocaleUpperCase env (cert_name data));
          impactRaw = trim (impactMessage data);
          impactLines = splitTextToSize env (fam, Normal) 12.5
            (t fl (if length impactRaw > 0 then impactRaw else default_impact)) (pw - 100);
          no = nullish (certificateNo data) [];
          loc = nullish (location data) []
      in [Rect 0 0 pw ph,
          Rect 8 8 (pw - 16) (ph - 16),
          Rect 12 12 (pw - 24) (ph - 24),
          DNAHelix 20 35 120 0.9,
          DNAHelix (pw - 35) 35 120 0.9,
          Atom 22 22 1.3,
          Atom (pw - 22) 22 1.3,
          Atom 22 (ph - 22) 1.3,
          Atom (pw - 22) (ph - 22) 1.3,
          Circle (pw / 2) 36 12,
          Microscope (pw / 2) 36 0.9,
          Text (Str (t fl (nullish (institution data) default_institution))) (pw / 2) 55 AlignCenter fam Normal 12,
          Text (Str (t fl (nullish (departmentOrUnit data) default_unit))) (pw / 2) 61 AlignCenter fam Normal 10.5,
          Text (Str (t fl title_text)) (pw / 2) 78 AlignCenter fam Bold 32,
          Text (Lines (splitTextToSize env (fam, Normal) 14 (t fl introRaw) (pw - 90))) (pw / 2) 92 AlignCenter fam Normal 14,
          Text (Str cleanName) (pw / 2) 122 AlignCenter fam Bold (real_of_int (resolved_name_size env fl cleanName)),
          Line (pw / 2 - 55) (122 + 8) (pw / 2 + 55) (122 + 8),
          Text (Lines impactLines) (pw / 2) 142 AlignCenter fam Normal 12.5,
          Text (Lines (splitTextToSize env (fam, Normal) 12.5 (t fl closingRaw) (pw - 90)))
            (pw / 2) (142 + real (length impactLines) * 7.2 + 8) AlignCenter fam Normal 12.5,
          Text (Str ((if loc \<noteq> [] then t fl loc @ js '', '' else []) @ t fl dateLabelRaw @ js '': '' @ cert_date data))
            30 (ph - 28) AlignLeft fam Normal 10.5]
         @ (if no \<noteq> [] then [Text (Str (t fl certNoLabelRaw @ js '': '' @ no)) 30 (ph - 28 + 6) AlignLeft fam Normal 9.5] else [])
         @ [Line (pw - 78) (ph - 28 - 6) (pw - 78 + 48) (ph - 28 - 6),
            Text (Str (t fl (nullish (coordinatorTitle data) default_coordinatorTitle))) (pw - 78 + 24) (ph - 28) AlignCenter fam Bold 10.5]
         @ (if trim (nullish (coordinatorName data) []) \<noteq> []
            then [Text (Str (t fl (nullish (coordinatorName data) []))) (pw - 78 + 24) (ph - 28 + 5.5) AlignCenter fam Normal 9.5]
            else []))"
proof -
  let ?fl = "fst (loadCustomFonts env new_jsPDF)"
  let ?cn = "t ?fl (toLocaleUpperCase env (cert_name data))"
  have size: "fst (shrinkName env ?cn (pageWidth env - 90) 40 d) = resolved_name_size env ?fl ?cn"
    if "font d = (text_family ?fl, Bold)" "fontSize d = 40" for d
    unfolding resolved_name_size_def
    by (rule shrinkName_fst_cong) (simp_all add: that run_def setFont_eq doc_setFontSize_def)
  have size2: "fontSize (snd (shrinkName env ?cn (pageWidth env - 90) 40 d)) = real_of_int (resolved_name_size env ?fl ?cn)"
    if "font d = (text_family ?fl, Bold)" "fontSize d = 40" for d
    using shrinkName_size [of d 40 env ?cn "pageWidth env - 90"] size [OF that] that by simp
  have new: "ops new_jsPDF = []" by (simp add: new_jsPDF_def)
  show ?thesis
    by (simp add: buildDocument_def Let_def case_prod_beta run_def when_block_ops draw_def
          doc_text_def setFont_eq doc_setFontSize_def shrinkName_frame size size2
          loadCustomFonts_frame new split del: if_split cong: if_cong)
       (simp add: run_def draw_def doc_text_def setFont_eq doc_setFontSize_def shrinkName_frame
          size size2 loadCustomFonts_frame new)
qed

text \<open>
  What the loop resolves, from an even size \<open>n\<close> of at least 20: the first size
  downwards from \<open>n\<close> at which the name fits, or 20.
\<close>

lemma shrinkName_result:
  assumes "fontSize doc = real_of_int n" and "20 \<le> n" and "even n"
  shows "let r = fst (shrinkName env cn mw n doc);
             W = (\<lambda>sz. getTextWidth env (font doc) (real_of_int sz) cn) in
         20 \<le> r \<and> r \<le> n \<and> even r \<and>
         (W n > mw \<and> n > 20 \<longrightarrow> r < n) \<and>
         (W n \<le> mw \<longrightarrow> r = n) \<and>
         (\<forall>sz. r < sz \<and> sz \<le> n \<and> even sz \<longrightarrow> W sz > mw) \<and>
         (W r \<le> mw \<or> r = 20)"
  using assms
proof (induction env cn mw n doc rule: shrinkName.induct)
  case (1 env cn mw n doc)
  show ?case
  proof (cases "getTextWidth env (font doc) (fontSize doc) cn > mw \<and> n > 20")
    case True
    let ?d = "doc_setFontSize (of_int (n - 2)) doc"
    have pre: "fontSize ?d = real_of_int (n - 2)" "20 \<le> n - 2" "even (n - 2)"
      using True "1.prems" by (auto simp: doc_setFontSize_def)
    have fd: "font ?d = font doc" by (simp add: doc_setFontSize_def)
    note ih = "1.IH" [OF True pre, unfolded Let_def fd]
    have eq: "shrinkName env cn mw n doc = shrinkName env cn mw (n - 2) ?d"
      using True by (rule shrinkName_step)
    have wn: "getTextWidth env (font doc) (real_of_int n) cn > mw"
      using True "1.prems" by simp
    have step: "sz \<le> n - 2 \<or> sz = n" if "sz \<le> n" "even sz" for sz
    proof -
      from that "1.prems"(3) have "sz \<noteq> n - 1" by auto
      with that show ?thesis by linarith
    qed
    show ?thesis
      unfolding Let_def eq using ih wn step by auto
  next
    case False
    then have eq: "shrinkName env cn mw n doc = (n, doc)" by (rule shrinkName_stop)
    from False "1.prems" show ?thesis
      unfolding Let_def eq by auto
  qed
qed

lemma offline_fonts: "fst (loadCustomFonts offline_pdf new_jsPDF) = False"
  by (simp add: loadCustomFonts_def regular_urls_def offline_pdf_def)

lemma resolved_name_size_props:
  "let r = resolved_name_size env fl cn;
       W = (\<lambda>sz. getTextWidth env (text_family fl, Bold) (real_of_int sz) cn);
       maxW = pageWidth env - 90
   in r \<in> set name_sizes \<and>
      (W 40 > maxW \<longrightarrow> r < 40) \<and>
      (W 40 \<le> maxW \<longrightarrow> r = 40) \<and>
      (\<forall>sz \<in> set name_sizes. r < sz \<longrightarrow> W sz > maxW) \<and>
      (W r \<le> maxW \<or> r = 20)"
proof -
  let ?d = "run [setFont fl Bold, doc_setFontSize 40] new_jsPDF"
  have d: "fontSize ?d = real_of_int 40" "font ?d = (text_family fl, Bold)"
    by (simp_all add: run_def setFont_eq doc_setFontSize_def)
  have r: "resolved_name_size env fl cn = fst (shrinkName env cn (pageWidth env - 90) 40 ?d)"
    by (simp add: resolved_name_size_def)
  note res = shrinkName_result [OF d(1), of env cn "pageWidth env - 90", unfolded Let_def d(2), folded r]
  have mem: "x \<in> set name_sizes \<longleftrightarrow> 20 \<le> x \<and> x \<le> 40 \<and> even x" for x :: int
  proof
    assume "x \<in> set name_sizes"
    then show "20 \<le> x \<and> x \<le> 40 \<and> even x" by (auto simp: name_sizes_def)
  next
    assume "20 \<le> x \<and> x \<le> 40 \<and> even x"
    then have "x = 40 \<or> x = 38 \<or> x = 36 \<or> x = 34 \<or> x = 32 \<or> x = 30 \<or> x = 28 \<or> x = 26
       \<or> x = 24 \<or> x = 22 \<or> x = 20" by presburger
    then show "x \<in> set name_sizes" by (auto simp: name_sizes_def)
  qed
  let ?r = "resolved_name_size env fl cn"
  let ?W = "\<lambda>sz. getTextWidth env (text_family fl, Bold) (real_of_int sz) cn"
  let ?maxW = "pageWidth env - 90"
  from res have bounds: "20 \<le> ?r \<and> ?r \<le> 40 \<and> even ?r" by simp
  from res have wide: "?W 40 > ?maxW \<longrightarrow> ?r < 40" by simp
  from res have fits: "?W 40 \<le> ?maxW \<longrightarrow> ?r = 40" by simp
  from res have above: "\<forall>sz. ?r < sz \<and> sz \<le> 40 \<and> even sz \<longrightarrow> ?W sz > ?maxW" by simp
  from res have last: "?W ?r \<le> ?maxW \<or> ?r = 20" by simp
  from bounds have 1: "?r \<in> set name_sizes" by (simp add: mem)
  from above have 2: "\<forall>sz \<in> set name_sizes. ?r < sz \<longrightarrow> ?W sz > ?maxW"
    by (simp add: mem)
  from 1 wide fits 2 last show ?thesis
    unfolding Let_def by blast
qed

text \<open>
  Claim C5. The name is upper-cased for \<open>tr-TR\<close>, transliterated when the fonts
  failed, and drawn bold at the size the loop resolves. That size is one of
  40, 38, ..., 20. When the name is wider than the page width less 90 at size
  40, the size is below 40; when it fits at 40, the size is 40. Every size of
  the sequence above the resolved one is too wide, and the resolved one fits
  unless it is the floor 20: it is the largest size of the sequence that fits,
  or the floor.
\<close>

theorem name_shrink_to_fit:
  "let fl = fst (loadCustomFonts env new_jsPDF);
       cleanName = t fl (toLocaleUpperCase env (cert_name data));
       W = (\<lambda>sz. getTextWidth env (text_family fl, Bold) (real_of_int sz) cleanName);
       maxW = pageWidth env - 90;
       r = resolved_name_size env fl cleanName
   in Text (Str cleanName) (pageWidth env / 2) 122 AlignCenter (text_family fl) Bold (real_of_int r)
        \<in> set (ops (buildDocument env data)) \<and>
      r \<in> set name_sizes \<and>
      (W 40 > maxW \<longrightarrow> r < 40) \<and>
      (W 40 \<le> maxW \<longrightarrow> r = 40) \<and>
      (\<forall>sz \<in> set name_sizes. r < sz \<longrightarrow> W sz > maxW) \<and>
      (W r \<le> maxW \<or> r = 20)"
proof -
  let ?fl = "fst (loadCustomFonts env new_jsPDF)"
  let ?cn = "t ?fl (toLocaleUpperCase env (cert_name data))"
  have "Text (Str ?cn) (pageWidth env / 2) 122 AlignCenter (text_family ?fl) Bold
          (real_of_int (resolved_name_size env ?fl ?cn)) \<in> set (ops (buildDocument env data))"
    by (simp add: buildDocument_ops Let_def)
  with resolved_name_size_props [of env ?fl ?cn] show ?thesis
    by (simp add: Let_def)
qed


lemma upper_ahmet: "test_upper ahmet = js ''AHMET YILMAZ''"
  by (simp add: ahmet_units test_upper_def js_def)

lemma sanitize_upper_ahmet: "sanitizeText (js ''AHMET YILMAZ'') = js ''AHMET YILMAZ''"
  by (simp add: sanitizeText_map sanitize_char_def sanitize_table_def js_def)

lemma clean_ahmet:
  "t (fst (loadCustomFonts offline_pdf new_jsPDF))
     (toLocaleUpperCase offline_pdf (cert_name numbered_request)) = js ''AHMET YILMAZ''"
  by (simp add: offline_fonts t_def)
     (simp add: numbered_request_def offline_pdf_def upper_ahmet sanitize_upper_ahmet)

lemma width_ahmet:
  "getTextWidth offline_pdf f (real_of_int sz) (js ''AHMET YILMAZ'') = 6 * real_of_int sz"
  by (simp add: offline_pdf_def js_def)

lemma clean_ali:
  "t (fst (loadCustomFonts offline_pdf new_jsPDF))
     (toLocaleUpperCase offline_pdf (cert_name (numbered_request\<lparr>cert_name := js ''Ali''\<rparr>)))
   = js ''ALI''"
  by (simp add: offline_fonts t_def)
     (simp add: offline_pdf_def test_upper_def sanitizeText_map sanitize_char_def
        sanitize_table_def js_def)

lemma width_ali:
  "getTextWidth offline_pdf f (real_of_int sz) (js ''ALI'') = 3 * real_of_int sz / 2"
  by (simp add: offline_pdf_def js_def)

text \<open>
  In the environment without network the page is 297 wide, so a name may be
  207 wide. "AHMET YILMAZ" is 240 wide at size 40 and 204 at size 34, where
  the loop stops; "ALI" is 60 wide at size 40 and keeps it.
\<close>

theorem name_shrink_to_fit_witness:
  "getTextWidth offline_pdf (Times, Bold) 40 (js ''AHMET YILMAZ'') > pageWidth offline_pdf - 90 \<and>
   resolved_name_size offline_pdf False (js ''AHMET YILMAZ'') = 34 \<and>
   Text (Str (js ''AHMET YILMAZ'')) (297 / 2) 122 AlignCenter Times Bold 34
     \<in> set (ops (buildDocument offline_pdf numbered_request)) \<and>
   getTextWidth offline_pdf (Times, Bold) 40 (js ''ALI'') \<le> pageWidth offline_pdf - 90 \<and>
   Text (Str (js ''ALI'')) (297 / 2) 122 AlignCenter Times Bold 40
     \<in> set (ops (buildDocument offline_pdf (numbered_request\<lparr>cert_name := js ''Ali''\<rparr>)))"
proof -
  let ?r = "resolved_name_size offline_pdf False (js ''AHMET YILMAZ'')"
  note th = name_shrink_to_fit [of offline_pdf numbered_request, unfolded Let_def clean_ahmet,
      unfolded offline_fonts width_ahmet]
  have pw: "pageWidth offline_pdf = 297" by (simp add: offline_pdf_def)
  from th have mem: "?r \<in> set name_sizes" by blast
  from th have above:
    "\<forall>sz \<in> set name_sizes. ?r < sz \<longrightarrow> 6 * real_of_int sz > pageWidth offline_pdf - 90"
    by blast
  from th have last: "6 * real_of_int ?r \<le> pageWidth offline_pdf - 90 \<or> ?r = 20" by blast
  from above have "\<not> ?r < 34" by (auto simp: name_sizes_def pw)
  moreover from last have "?r \<le> 34" by (auto simp: pw)
  ultimately have r: "?r = 34" by simp
  from th have "Text (Str (js ''AHMET YILMAZ'')) (pageWidth offline_pdf / 2) 122 AlignCenter
      (text_family False) Bold (real_of_int ?r)
      \<in> set (ops (buildDocument offline_pdf numbered_request))"
    by blast
  then have op: "Text (Str (js ''AHMET YILMAZ'')) (297 / 2) 122 AlignCenter Times Bold 34
     \<in> set (ops (buildDocument offline_pdf numbered_request))"
    by (simp add: r pw text_family_def)
  have w: "getTextWidth offline_pdf (Times, Bold) 40 (js ''AHMET YILMAZ'') > pageWidth offline_pdf - 90"
    using width_ahmet [of "(Times, Bold)" 40] by (simp add: pw)
  let ?q = "resolved_name_size offline_pdf False (js ''ALI'')"
  note th2 = name_shrink_to_fit [of offline_pdf "numbered_request\<lparr>cert_name := js ''Ali''\<rparr>",
      unfolded Let_def clean_ali, unfolded offline_fonts width_ali]
  have w2: "getTextWidth offline_pdf (Times, Bold) 40 (js ''ALI'') \<le> pageWidth offline_pdf - 90"
    using width_ali [of "(Times, Bold)" 40] by (simp add: pw)
  from th2 have "3 * real_of_int 40 / 2 \<le> pageWidth offline_pdf - 90 \<longrightarrow> ?q = 40" by blast
  then have q: "?q = 40" by (simp add: pw)
  from th2 have "Text (Str (js ''ALI'')) (pageWidth offline_pdf / 2) 122 AlignCenter
      (text_family False) Bold (real_of_int ?q)
      \<in> set (ops (buildDocument offline_pdf (numbered_request\<lparr>cert_name := js ''Ali''\<rparr>)))"
    by blast
  then have op2: "Text (Str (js ''ALI'')) (297 / 2) 122 AlignCenter Times Bold 40
     \<in> set (ops (buildDocument offline_pdf (numbered_request\<lparr>cert_name := js ''Ali''\<rparr>)))"
    by (simp add: q pw text_family_def)
  from w r op w2 op2 show ?thesis by blast
qed


lemma nth_impact:
  "ops (buildDocument env data) ! 17 =
     (let fl = fst (loadCustomFonts env new_jsPDF);
          impactRaw = trim (impactMessage data)
      in Text (Lines (splitTextToSize env (text_family fl, Normal) 12.5
                 (t fl (if length impactRaw > 0 then impactRaw else default_impact))
                 (pageWidth env - 100)))
           (pageWidth env / 2) 142 AlignCenter (text_family fl) Normal 12.5)"
  by (simp add: buildDocument_ops Let_def nth_append)

lemma sanitize_default_impact:
  "sanitizeText default_impact =
     js ''Katkilariniz, arastirma surecimizin niteligini ve guvenilirligini guclendirmistir.''"
  by (simp add: default_impact_def sanitizeText_map sanitize_char_def sanitize_table_def js_def)

text \<open>
  Claim C9. The impact paragraph is the operation after the underline of the
  name, the one at index 17. When the impact message is empty or white space
  after trimming, what is wrapped and drawn there is the default sentence;
  otherwise it is the trimmed message. Either is transliterated when the fonts
  failed to load (\<open>t\<close>). The wrapping is the one of the library.
\<close>

theorem impact_default_when_blank:
  "let fl = fst (loadCustomFonts env new_jsPDF);
       impact_op = (\<lambda>s. Text (Lines (splitTextToSize env (text_family fl, Normal) 12.5 (t fl s)
                                  (pageWidth env - 100)))
                       (pageWidth env / 2) 142 AlignCenter (text_family fl) Normal 12.5)
   in (trim (impactMessage data) = [] \<longrightarrow>
         ops (buildDocument env data) ! 17 = impact_op default_impact) \<and>
      (trim (impactMessage data) \<noteq> [] \<longrightarrow>
         ops (buildDocument env data) ! 17 = impact_op (trim (impactMessage data))) \<and>
      17 < length (ops (buildDocument env data))"
  by (simp add: nth_impact Let_def) (simp add: buildDocument_ops Let_def)

text \<open>
  Without fonts and without wrapping, the empty message gives the default
  sentence in ASCII, and the message " Thank you. " gives "Thank you.".
\<close>

theorem impact_default_when_blank_witness:
  "trim (impactMessage numbered_request) = [] \<and>
   ops (buildDocument offline_pdf numbered_request) ! 17
     = Text (Lines [js ''Katkilariniz, arastirma surecimizin niteligini ve guvenilirligini guclendirmistir.''])
         (297 / 2) 142 AlignCenter Times Normal 12.5 \<and>
   trim (impactMessage (numbered_request\<lparr>impactMessage := js '' Thank you. ''\<rparr>)) \<noteq> [] \<and>
   ops (buildDocument offline_pdf (numbered_request\<lparr>impactMessage := js '' Thank you. ''\<rparr>)) ! 17
     = Text (Lines [js ''Thank you.'']) (297 / 2) 142 AlignCenter Times Normal 12.5"
proof -
  have b: "trim (impactMessage numbered_request) = []"
    by (simp add: numbered_request_def trim_def)
  have n': "trim (js '' Thank you. '') = js ''Thank you.''"
    by (simp add: trim_def js_def is_ws_def)
  then have n: "trim (impactMessage (numbered_request\<lparr>impactMessage := js '' Thank you. ''\<rparr>))
     = js ''Thank you.''"
    by simp
  have ne: "js ''Thank you.'' \<noteq> []" by (simp add: js_def)
  have s: "splitTextToSize offline_pdf f sz s w = [s]" for f sz s w
    by (simp add: offline_pdf_def)
  have pw: "pageWidth offline_pdf = 297" by (simp add: offline_pdf_def)
  have ty: "sanitizeText (js ''Thank you.'') = js ''Thank you.''"
    by (simp add: sanitizeText_map sanitize_char_def sanitize_table_def js_def)
  note th1 = impact_default_when_blank [of offline_pdf numbered_request,
      unfolded Let_def offline_fonts s pw]
  note th2 = impact_default_when_blank
      [of offline_pdf "numbered_request\<lparr>impactMessage := js '' Thank you. ''\<rparr>",
       unfolded Let_def offline_fonts s pw n]
  from th1 b have 1: "ops (buildDocument offline_pdf numbered_request) ! 17
     = Text (Lines [t False default_impact]) (297 / 2) 142 AlignCenter (text_family False) Normal 12.5"
    by blast
  from th2 ne have 2:
    "ops (buildDocument offline_pdf (numbered_request\<lparr>impactMessage := js '' Thank you. ''\<rparr>)) ! 17
     = Text (Lines [t False (js ''Thank you.'')]) (297 / 2) 142 AlignCenter (text_family False) Normal 12.5"
    by blast
  from b 1 2 ne show ?thesis
    by (simp add: n' t_def text_family_def sanitize_default_impact ty)
qed

text \<open>The literals of the generator hold no i or u with circumflex: transliterated, they are plain.\<close>

lemma literals_clean:
  "filter is_diacritic (t False default_institution) = []"
  "filter is_diacritic (t False default_unit) = []"
  "filter is_diacritic (t False title_text) = []"
  "filter is_diacritic (t False introRaw) = []"
  "filter is_diacritic (t False default_impact) = []"
  "filter is_diacritic (t False closingRaw) = []"
  "filter is_diacritic (t False dateLabelRaw) = []"
  "filter is_diacritic (t False certNoLabelRaw) = []"
  "filter is_diacritic (t False default_coordinatorTitle) = []"
  unfolding t_def if_False
  by (rule sanitize_clean, simp add: default_institution_def default_unit_def title_text_def
        introRaw_def default_impact_def closingRaw_def dateLabelRaw_def certNoLabelRaw_def
        default_coordinatorTitle_def js_def)+

lemma offline_texts:
  "rendered_texts (buildDocument offline_pdf numbered_request) =
     [t False default_institution, t False default_unit, t False title_text, t False introRaw,
      js ''AHMET YILMAZ'', t False default_impact, t False closingRaw,
      t False dateLabelRaw @ js '': 01.01.2025'',
      t False certNoLabelRaw @ js '': 2025-G'' @ [0xD6] @ js ''N-0142'',
      t False default_coordinatorTitle]"
proof -
  have s: "splitTextToSize offline_pdf f sz s w = [s]" for f sz s w
    by (simp add: offline_pdf_def)
  have n: "nullish (institution numbered_request) d = d"
    "nullish (departmentOrUnit numbered_request) d = d"
    "nullish (coordinatorTitle numbered_request) d = d"
    "nullish (coordinatorName numbered_request) d = d"
    "nullish (location numbered_request) d = d"
    "nullish (certificateNo numbered_request) d = js ''2025-G'' @ [0xD6] @ js ''N-0142''"
    "cert_date numbered_request = js ''01.01.2025''"
    "trim (impactMessage numbered_request) = []" for d
    by (simp_all add: numbered_request_def nullish_def trim_def)
  have e: "trim [] = []" by (simp add: trim_def)
  have ne: "js ''2025-G'' @ [0xD6] @ js ''N-0142'' \<noteq> []" by (simp add: js_def)
  note c = clean_ahmet [unfolded offline_fonts]
  show ?thesis
    unfolding rendered_texts_def buildDocument_ops Let_def offline_fonts s n
    by (simp add: e ne c) (simp add: js_def)
qed

text \<open>
  Claim C2, on the code. With every font mirror unreachable the fonts do not
  load. For a request whose certificate number is "2025-GON-0142" written with
  a capital o-diaeresis, the footer draws "Belge No: " followed by the number
  as it is: the number is appended outside \<open>t\<close>. Of all the text of the
  document, that letter is the one diacritic letter left.
\<close>

theorem certificate_number_not_sanitized:
  "fst (loadCustomFonts offline_pdf new_jsPDF) = False \<and>
   certificateNo numbered_request = Some (js ''2025-G'' @ [0xD6] @ js ''N-0142'') \<and>
   is_diacritic 0xD6 \<and>
   sanitizeText (js ''2025-G'' @ [0xD6] @ js ''N-0142'') = js ''2025-GON-0142'' \<and>
   js ''Belge No: 2025-G'' @ [0xD6] @ js ''N-0142''
     \<in> set (rendered_texts (buildDocument offline_pdf numbered_request)) \<and>
   filter is_diacritic (concat (rendered_texts (buildDocument offline_pdf numbered_request)))
     = [0xD6]"
proof -
  have d: "is_diacritic 0xD6" by (simp add: is_diacritic_def turkish_diacritics_def)
  have c: "sanitizeText (js ''2025-G'' @ [0xD6] @ js ''N-0142'') = js ''2025-GON-0142''"
    by (simp add: sanitizeText_map sanitize_char_def sanitize_table_def js_def)
  have l: "t False certNoLabelRaw = js ''Belge No''"
    by (simp add: t_def certNoLabelRaw_def sanitizeText_map sanitize_char_def sanitize_table_def js_def)
  have p: "filter is_diacritic (js s) = []" if "list_all (\<lambda>c. of_char c < (128::nat)) s" for s
    using that by (induction s) (auto simp: js_def is_diacritic_def turkish_diacritics_def)
  have m: "js ''Belge No: 2025-G'' @ [0xD6] @ js ''N-0142''
     \<in> set (rendered_texts (buildDocument offline_pdf numbered_request))"
    by (simp add: offline_texts l) (simp add: js_def)
  have f: "filter is_diacritic (concat (rendered_texts (buildDocument offline_pdf numbered_request)))
     = [0xD6]"
    by (simp add: offline_texts literals_clean d p)
  from offline_fonts d c m f show ?thesis
    by (simp add: numbered_request_def)
qed


section \<open>The issuance counter and the gate\<close>




















end
